theory Spec2Isabelle
  imports Main
begin

section \<open>Python values shared by the modules\<close>

text \<open>
  Exceptions are values. \<open>HTTPException\<close> carries the three arguments the routes pass
  (status code, detail, headers; \<open>None\<close> when no headers are given). The other
  constructors are the exception classes of the libraries the code calls: python-jose
  (\<open>JWTError\<close> with its subclasses \<open>ExpiredSignatureError\<close> and \<open>JWTClaimsError\<close>;
  \<open>JWSError\<close> and \<open>JWKError\<close> are siblings, not subclasses), passlib
  (\<open>UnknownHashError\<close>, a \<open>ValueError\<close>), the database client
  (\<open>UniqueViolationError\<close>) and the builtins.
\<close>

datatype py_exception =
    HTTPException nat string "(string \<times> string) list option"
  | JWTError
  | ExpiredSignatureError
  | JWTClaimsError
  | JWSError
  | JWKError
  | UnknownHashError
  | UniqueViolationError
  | ValueError
  | TypeError

text \<open>\<open>isinstance(e, JWTError)\<close>: what \<open>except JWTError\<close> catches.\<close>

fun isinstance_JWTError :: "py_exception \<Rightarrow> bool" where
  "isinstance_JWTError JWTError = True"
| "isinstance_JWTError ExpiredSignatureError = True"
| "isinstance_JWTError JWTClaimsError = True"
| "isinstance_JWTError _ = False"

text \<open>Truth value of a \<open>str | None\<close>: \<open>None\<close> and the empty string are false.\<close>

fun truthy :: "string option \<Rightarrow> bool" where
  "truthy None = False"
| "truthy (Some s) = (s \<noteq> [])"

text \<open>\<open>a or b\<close> on \<open>str | None\<close> values: \<open>a\<close> when it is true, else \<open>b\<close>.\<close>

definition py_or :: "string option \<Rightarrow> string option \<Rightarrow> string option" where
  "py_or a b = (if truthy a then a else b)"

section \<open>core/config.py\<close>

record Settings =
  app_name :: string
  secret_key :: string
  algorithm :: string
  access_token_expire_minutes :: int
  database_url :: string

section \<open>core/security.py\<close>

text \<open>
  Instants (\<open>datetime\<close>) and durations (\<open>timedelta\<close>) are integers counting
  microseconds, the resolution of both Python types. The clock read by
  \<open>datetime.now(timezone.utc)\<close> is the explicit argument \<open>now\<close>.
\<close>

type_synonym datetime = int
type_synonym timedelta = int

definition timedelta_minutes :: "int \<Rightarrow> timedelta" where
  "timedelta_minutes m = m * 60000000"

text \<open>
  The claim set handed to and returned by the token library. The code writes the keys
  \<open>"exp"\<close> and \<open>"sub"\<close> and reads \<open>"sub"\<close> with \<open>payload.get\<close>, which is \<open>None\<close> for
  a missing key; the source types the result \<open>str | None\<close>.
\<close>

record claims =
  claim_exp :: "datetime option"
  claim_sub :: "string option"

text \<open>
  The two entry points of python-jose that the module calls, taken as parameters:
  \<open>jwt.encode(claims, key, algorithm)\<close> and
  \<open>jwt.decode(token, key, algorithms)\<close>. The decoder also reads the clock, so the
  current instant is its last argument. Either may raise.
\<close>

record jose =
  jwt_encode :: "claims \<Rightarrow> string \<Rightarrow> string \<Rightarrow> py_exception + string"
  jwt_decode :: "string \<Rightarrow> string \<Rightarrow> string list \<Rightarrow> datetime \<Rightarrow> py_exception + claims"

text \<open>
  The passlib context \<open>CryptContext(schemes=["pbkdf2_sha256"])\<close>, taken as a parameter:
  \<open>hash\<close> draws a fresh salt (an explicit argument here) and \<open>verify\<close> may raise.
\<close>

record pwd_context =
  ctx_hash :: "string \<Rightarrow> string \<Rightarrow> string"
  ctx_verify :: "string \<Rightarrow> string \<Rightarrow> py_exception + bool"

definition hash_password :: "pwd_context \<Rightarrow> string \<Rightarrow> string \<Rightarrow> string" where
  "hash_password ctx salt password = ctx_hash ctx salt password"

definition verify_password :: "pwd_context \<Rightarrow> string \<Rightarrow> string \<Rightarrow> py_exception + bool" where
  "verify_password ctx plain_password hashed_password =
     ctx_verify ctx plain_password hashed_password"

definition create_access_token ::
  "jose \<Rightarrow> Settings \<Rightarrow> datetime \<Rightarrow> string \<Rightarrow> timedelta option \<Rightarrow> py_exception + string" where
  "create_access_token J settings now subject expires_delta =
     (let expire =
            (case expires_delta of
               Some d \<Rightarrow>
                 if d \<noteq> 0 then now + d
                 else now + timedelta_minutes (access_token_expire_minutes settings)
             | None \<Rightarrow> now + timedelta_minutes (access_token_expire_minutes settings));
          to_encode = \<lparr>claim_exp = Some expire, claim_sub = Some subject\<rparr>
      in jwt_encode J to_encode (secret_key settings) (algorithm settings))"

definition decode_access_token ::
  "jose \<Rightarrow> Settings \<Rightarrow> datetime \<Rightarrow> string \<Rightarrow> py_exception + string option" where
  "decode_access_token J settings now token =
     (case jwt_decode J token (secret_key settings) [algorithm settings] now of
        Inr payload \<Rightarrow> Inr (claim_sub payload)
      | Inl e \<Rightarrow> if isinstance_JWTError e then Inr None else Inl e)"

section \<open>The persistence layer\<close>

text \<open>
  Modelled from the spec: the module \<open>database\<close> (the Prisma client and its schema) is
  not among the sources. The spec gives its interface: \<open>find_user_by_email\<close>,
  \<open>find_user_by_id\<close> and \<open>create_user(email, password_hash)\<close>, with email uniqueness
  enforced by the store. A User has an identifier, an email and a password hash; the
  routes probe two spellings of the hash attribute, so both are fields (\<open>None\<close> when
  the attribute is missing or unset). The table is the list of its rows.
\<close>

record User =
  user_id :: string
  user_email :: string
  user_password_hash :: "string option"
  user_passwordHash :: "string option"

type_synonym db = "User list"

definition find_unique_email :: "db \<Rightarrow> string \<Rightarrow> User option" where
  "find_unique_email d e = find (\<lambda>u. user_email u = e) d"

definition find_unique_id :: "db \<Rightarrow> string \<Rightarrow> User option" where
  "find_unique_id d i = find (\<lambda>u. user_id u = i) d"

text \<open>
  \<open>prisma.user.create(data={"email": .., "passwordHash": ..})\<close>: the store chooses the
  identifier (the argument \<open>new_id\<close>) and rejects a second row with the same email.
\<close>

definition user_create :: "db \<Rightarrow> string \<Rightarrow> string \<Rightarrow> string \<Rightarrow> py_exception + (User \<times> db)" where
  "user_create d new_id e h =
     (if find_unique_email d e \<noteq> None then Inl UniqueViolationError
      else
        (let user = \<lparr>user_id = new_id, user_email = e,
                     user_password_hash = None, user_passwordHash = Some h\<rparr>
         in Inr (user, d @ [user])))"

section \<open>api/deps.py\<close>

record Request =
  headers :: "string \<rightharpoonup> string"
  cookies :: "string \<rightharpoonup> string"

record HTTPAuthorizationCredentials =
  scheme :: string
  credentials :: string

definition COOKIE_NAME :: string where
  "COOKIE_NAME = ''access_token''"

text \<open>
  \<open>security_bearer = HTTPBearer(auto_error=False)\<close> is FastAPI's. Called on a request
  it splits the Authorization header at the first space into scheme and credentials
  (\<open>str.partition\<close>), answers \<open>None\<close> when the header, the scheme or the credentials
  are empty or the scheme, lower-cased, is not \<open>bearer\<close>, and the pair otherwise.
\<close>

definition lower_char :: "char \<Rightarrow> char" where
  "lower_char c =
     (case map_of (zip ''ABCDEFGHIJKLMNOPQRSTUVWXYZ'' ''abcdefghijklmnopqrstuvwxyz'') c of
        Some l \<Rightarrow> l
      | None \<Rightarrow> c)"

definition lower :: "string \<Rightarrow> string" where
  "lower s = map lower_char s"

definition get_authorization_scheme_param :: "string option \<Rightarrow> string \<times> string" where
  "get_authorization_scheme_param authorization_header_value =
     (case authorization_header_value of
        None \<Rightarrow> ([], [])
      | Some v \<Rightarrow>
          if v = [] then ([], [])
          else (takeWhile (\<lambda>c. c \<noteq> CHR '' '') v, drop 1 (dropWhile (\<lambda>c. c \<noteq> CHR '' '') v)))"

definition security_bearer :: "Request \<Rightarrow> HTTPAuthorizationCredentials option" where
  "security_bearer request =
     (let authorization = headers request ''Authorization'';
          (sch, cred) = get_authorization_scheme_param authorization
      in if \<not> (truthy authorization \<and> sch \<noteq> [] \<and> cred \<noteq> []) then None
         else if lower sch \<noteq> ''bearer'' then None
         else Some \<lparr>scheme = sch, credentials = cred\<rparr>)"

text \<open>\<open>auth_header.startswith("Bearer ")\<close> and \<open>auth_header[7:]\<close>.\<close>

definition startswith_Bearer :: "string \<Rightarrow> bool" where
  "startswith_Bearer s = (take 7 s = ''Bearer '')"

definition get_token :: "Request \<Rightarrow> string option" where
  "get_token request =
     (let auth_header = headers request ''Authorization''
      in case auth_header of
           Some h \<Rightarrow>
             if h \<noteq> [] \<and> startswith_Bearer h then Some (drop 7 h)
             else cookies request COOKIE_NAME
         | None \<Rightarrow> cookies request COOKIE_NAME)"

definition get_current_user_id ::
  "jose \<Rightarrow> Settings \<Rightarrow> datetime \<Rightarrow> HTTPAuthorizationCredentials option \<Rightarrow> Request
     \<Rightarrow> py_exception + string" where
  "get_current_user_id J settings now creds request =
     (let token =
            (case creds of
               Some c \<Rightarrow> Some (credentials c)
             | None \<Rightarrow> cookies request COOKIE_NAME)
      in case token of
           None \<Rightarrow>
             Inl (HTTPException 401 ''Not authenticated'' (Some [(''WWW-Authenticate'', ''Bearer'')]))
         | Some t \<Rightarrow>
             if t = [] then
               Inl (HTTPException 401 ''Not authenticated'' (Some [(''WWW-Authenticate'', ''Bearer'')]))
             else
               (case decode_access_token J settings now t of
                  Inl e \<Rightarrow> Inl e
                | Inr uid \<Rightarrow>
                    (case uid of
                       None \<Rightarrow>
                         Inl (HTTPException 401 ''Invalid or expired token''
                                (Some [(''WWW-Authenticate'', ''Bearer'')]))
                     | Some u \<Rightarrow>
                         if u = [] then
                           Inl (HTTPException 401 ''Invalid or expired token''
                                  (Some [(''WWW-Authenticate'', ''Bearer'')]))
                         else Inr u)))"

definition get_current_user :: "db \<Rightarrow> string \<Rightarrow> py_exception + User" where
  "get_current_user d uid =
     (case find_unique_id d uid of
        None \<Rightarrow> Inl (HTTPException 401 ''User not found'' None)
      | Some user \<Rightarrow> Inr user)"

definition get_optional_user_id ::
  "jose \<Rightarrow> Settings \<Rightarrow> datetime \<Rightarrow> Request \<Rightarrow> py_exception + string option" where
  "get_optional_user_id J settings now request =
     (let token0 = cookies request COOKIE_NAME;
          token =
            (if \<not> truthy token0 then
               (case headers request ''Authorization'' of
                  Some auth \<Rightarrow>
                    if auth \<noteq> [] \<and> startswith_Bearer auth then Some (drop 7 auth) else token0
                | None \<Rightarrow> token0)
             else token0)
      in case token of
           None \<Rightarrow> Inr None
         | Some t \<Rightarrow> if t = [] then Inr None else decode_access_token J settings now t)"

text \<open>
  The dependency chains FastAPI runs before a protected route: \<open>Depends(security_bearer)\<close>
  feeds \<open>get_current_user_id\<close>, whose result feeds \<open>get_current_user\<close>; an exception
  of a dependency ends the request.
\<close>

definition depends_current_user_id ::
  "jose \<Rightarrow> Settings \<Rightarrow> datetime \<Rightarrow> Request \<Rightarrow> py_exception + string" where
  "depends_current_user_id J settings now request =
     get_current_user_id J settings now (security_bearer request) request"

definition depends_current_user ::
  "jose \<Rightarrow> Settings \<Rightarrow> datetime \<Rightarrow> db \<Rightarrow> Request \<Rightarrow> py_exception + User" where
  "depends_current_user J settings now d request =
     (case depends_current_user_id J settings now request of
        Inl e \<Rightarrow> Inl e
      | Inr uid \<Rightarrow> get_current_user d uid)"

text \<open>
  The candidate token each resolver settles on before it decodes anything: the
  credentials FastAPI hands \<open>get_current_user_id\<close>, else the cookie; for
  \<open>get_optional_user_id\<close> the cookie, else what follows \<open>Bearer \<close> in the header.
  Two candidates are the same when they are equal or both false.
\<close>

definition required_candidate :: "Request \<Rightarrow> string option" where
  "required_candidate request =
     (case security_bearer request of
        Some c \<Rightarrow> Some (credentials c)
      | None \<Rightarrow> cookies request COOKIE_NAME)"

definition optional_candidate :: "Request \<Rightarrow> string option" where
  "optional_candidate request =
     (let token0 = cookies request COOKIE_NAME
      in if \<not> truthy token0 then
           (case headers request ''Authorization'' of
              Some auth \<Rightarrow>
                if auth \<noteq> [] \<and> startswith_Bearer auth then Some (drop 7 auth) else token0
            | None \<Rightarrow> token0)
         else token0)"

definition same_candidate :: "Request \<Rightarrow> bool" where
  "same_candidate request \<longleftrightarrow>
     required_candidate request = optional_candidate request \<or>
     (\<not> truthy (required_candidate request) \<and> \<not> truthy (optional_candidate request))"

section \<open>schemas/auth.py and api/routes/auth.py\<close>

text \<open>
  \<open>SignUpRequest\<close> and \<open>SignInRequest\<close> have the same two fields; the length bounds
  on the signup password are checked by the framework before the route runs.
\<close>

record SignUpRequest =
  email :: string
  password :: string

type_synonym SignInRequest = SignUpRequest

record Token =
  access_token :: string
  token_type :: string

text \<open>
  The routes read and write the user table, so each takes the table and returns it
  with its result. \<open>signup\<close> also receives what the environment chooses: the new
  row's identifier and the salt of the hash.
\<close>

definition signup ::
  "jose \<Rightarrow> pwd_context \<Rightarrow> Settings \<Rightarrow> datetime \<Rightarrow> string \<Rightarrow> string \<Rightarrow> SignUpRequest \<Rightarrow> db
     \<Rightarrow> (py_exception + Token) \<times> db" where
  "signup J ctx settings now new_id salt body d =
     (case find_unique_email d (email body) of
        Some existing \<Rightarrow> (Inl (HTTPException 400 ''Email already registered'' None), d)
      | None \<Rightarrow>
          (case user_create d new_id (email body) (hash_password ctx salt (password body)) of
             Inl e \<Rightarrow> (Inl e, d)
           | Inr (user, d') \<Rightarrow>
               (case create_access_token J settings now (user_id user)
                       (Some (timedelta_minutes (access_token_expire_minutes settings))) of
                  Inl e \<Rightarrow> (Inl e, d')
                | Inr tok \<Rightarrow> (Inr \<lparr>access_token = tok, token_type = ''bearer''\<rparr>, d'))))"

definition signin ::
  "jose \<Rightarrow> pwd_context \<Rightarrow> Settings \<Rightarrow> datetime \<Rightarrow> SignInRequest \<Rightarrow> db
     \<Rightarrow> (py_exception + Token) \<times> db" where
  "signin J ctx settings now body d =
     (let user = find_unique_email d (email body);
          pwd_hash =
            (case user of
               None \<Rightarrow> None
             | Some u \<Rightarrow> py_or (user_password_hash u) (user_passwordHash u))
      in case user of
           None \<Rightarrow> (Inl (HTTPException 401 ''Invalid email or password'' None), d)
         | Some u \<Rightarrow>
             (case pwd_hash of
                None \<Rightarrow> (Inl (HTTPException 401 ''Invalid email or password'' None), d)
              | Some h \<Rightarrow>
                  if h = [] then (Inl (HTTPException 401 ''Invalid email or password'' None), d)
                  else
                    (case verify_password ctx (password body) h of
                       Inl e \<Rightarrow> (Inl e, d)
                     | Inr ok \<Rightarrow>
                         if \<not> ok then
                           (Inl (HTTPException 401 ''Invalid email or password'' None), d)
                         else
                           (case create_access_token J settings now (user_id u)
                                   (Some (timedelta_minutes (access_token_expire_minutes settings))) of
                              Inl e \<Rightarrow> (Inl e, d)
                            | Inr tok \<Rightarrow>
                                (Inr \<lparr>access_token = tok, token_type = ''bearer''\<rparr>, d)))))"

section \<open>What the libraries guarantee\<close>

text \<open>
  The properties of python-jose and passlib that the claims rest on, as predicates on
  the parameters. A token decodes, under the key and algorithm it was made with and
  before its expiry, to claims with the same subject; the decoder reports every
  failure as a \<open>JWTError\<close>; the encoder signs every claim set under the configured
  key and algorithm; a password verifies against its own hash, which is never the
  empty string.
\<close>

definition jose_roundtrip :: "jose \<Rightarrow> bool" where
  "jose_roundtrip J \<longleftrightarrow>
     (\<forall>c key alg tok now.
        jwt_encode J c key alg = Inr tok \<longrightarrow>
        (\<forall>e. claim_exp c = Some e \<longrightarrow> now \<le> e) \<longrightarrow>
        (\<exists>c'. jwt_decode J tok key [alg] now = Inr c' \<and> claim_sub c' = claim_sub c))"

definition jose_raises_JWTError :: "jose \<Rightarrow> bool" where
  "jose_raises_JWTError J \<longleftrightarrow>
     (\<forall>tok key algs now e. jwt_decode J tok key algs now = Inl e \<longrightarrow> isinstance_JWTError e)"




section \<open>Stand-ins for the libraries\<close>

text \<open>
  Executable stand-ins on which the model is run at concrete inputs. \<open>fake_jose\<close>
  writes a token as \<open>key|alg|sub\<close> (\<open>key|alg\<close> when there is no subject) and accepts
  exactly the tokens that start with the key and one of the allowed algorithms; it
  never expires a token. \<open>fake_pwd_context\<close> does what passlib's context does to a
  stored hash before any digest is computed: it identifies the scheme by the prefix
  \<open>$pbkdf2-sha256$\<close> and raises \<open>UnknownHashError\<close> when no configured scheme
  matches; its digest is the plaintext.
\<close>

definition fake_encode :: "claims \<Rightarrow> string \<Rightarrow> string \<Rightarrow> py_exception + string" where
  "fake_encode c key alg =
     (case claim_sub c of
        None \<Rightarrow> Inr (key @ ''|'' @ alg)
      | Some s \<Rightarrow> Inr (key @ ''|'' @ alg @ ''|'' @ s))"

definition fake_decode ::
  "string \<Rightarrow> string \<Rightarrow> string list \<Rightarrow> datetime \<Rightarrow> py_exception + claims" where
  "fake_decode tok key algs now =
     (case find (\<lambda>a. take (length (key @ ''|'' @ a)) tok = key @ ''|'' @ a) algs of
        None \<Rightarrow> Inl JWTError
      | Some a \<Rightarrow>
          (case drop (length (key @ ''|'' @ a)) tok of
             [] \<Rightarrow> Inr \<lparr>claim_exp = None, claim_sub = None\<rparr>
           | ch # rest \<Rightarrow>
               if ch = CHR ''|'' then Inr \<lparr>claim_exp = None, claim_sub = Some rest\<rparr>
               else Inl JWTError))"

definition fake_jose :: jose where
  "fake_jose = \<lparr>jwt_encode = fake_encode, jwt_decode = fake_decode\<rparr>"

text \<open>
  \<open>clock_jose\<close> is a second stand-in that also does what python-jose does with the
  expiry. Its tokens are \<open>key|alg|exp|sub\<close>, the expiry in whole seconds written as
  \<open>p\<close> or \<open>m\<close> (the sign) and one \<open>i\<close> per second, \<open>-\<close> when the claim is
  absent and \<open>n\<close> when it is null. Decoding checks key and algorithm, converts the
  expiry as \<open>int(claims["exp"])\<close> does, so that a null expiry is a \<open>TypeError\<close>
  (not a \<open>JWTError\<close>: the library catches only \<open>ValueError\<close> there), and then
  compares whole seconds with the clock.
\<close>

datatype exp_claim = ExpAbsent | ExpNull | ExpInt int | ExpMalformed

definition clock_exp_field :: "datetime option \<Rightarrow> string" where
  "clock_exp_field x =
     (case x of
        None \<Rightarrow> ''-''
      | Some e \<Rightarrow>
          (let s = e div 1000000
           in if 0 \<le> s then CHR ''p'' # replicate (nat s) CHR ''i''
              else CHR ''m'' # replicate (nat (- s)) CHR ''i''))"

definition clock_parse_exp :: "string \<Rightarrow> exp_claim" where
  "clock_parse_exp f =
     (if f = ''-'' then ExpAbsent
      else if f = ''n'' then ExpNull
      else
        (case f of
           [] \<Rightarrow> ExpMalformed
         | ch # ds \<Rightarrow>
             if \<not> list_all (\<lambda>d. d = CHR ''i'') ds then ExpMalformed
             else if ch = CHR ''p'' then ExpInt (int (length ds))
             else if ch = CHR ''m'' then ExpInt (- int (length ds))
             else ExpMalformed))"

definition clock_encode :: "claims \<Rightarrow> string \<Rightarrow> string \<Rightarrow> py_exception + string" where
  "clock_encode c key alg =
     Inr (key @ ''|'' @ alg @ ''|'' @ clock_exp_field (claim_exp c) @
          (case claim_sub c of None \<Rightarrow> [] | Some s \<Rightarrow> ''|'' @ s))"

definition clock_decode ::
  "string \<Rightarrow> string \<Rightarrow> string list \<Rightarrow> datetime \<Rightarrow> py_exception + claims" where
  "clock_decode tok key algs now =
     (case find (\<lambda>a. take (length (key @ ''|'' @ a @ ''|'')) tok = key @ ''|'' @ a @ ''|'') algs of
        None \<Rightarrow> Inl JWTError
      | Some a \<Rightarrow>
          (let body = drop (length (key @ ''|'' @ a @ ''|'')) tok;
               sub = (case dropWhile (\<lambda>ch. ch \<noteq> CHR ''|'') body of
                        [] \<Rightarrow> None
                      | _ # s \<Rightarrow> Some s)
           in case clock_parse_exp (takeWhile (\<lambda>ch. ch \<noteq> CHR ''|'') body) of
                ExpMalformed \<Rightarrow> Inl JWTError
              | ExpNull \<Rightarrow> Inl TypeError
              | ExpAbsent \<Rightarrow> Inr \<lparr>claim_exp = None, claim_sub = sub\<rparr>
              | ExpInt e \<Rightarrow>
                  if e < now div 1000000 then Inl ExpiredSignatureError
                  else Inr \<lparr>claim_exp = Some (e * 1000000), claim_sub = sub\<rparr>))"

definition clock_jose :: jose where
  "clock_jose = \<lparr>jwt_encode = clock_encode, jwt_decode = clock_decode\<rparr>"

definition fake_pwd_context :: pwd_context where
  "fake_pwd_context =
     \<lparr>ctx_hash = (\<lambda>salt p. ''$pbkdf2-sha256$'' @ p),
      ctx_verify = (\<lambda>p h.
         if take 15 h = ''$pbkdf2-sha256$'' then Inr (drop 15 h = p)
         else Inl UnknownHashError)\<rparr>"

definition test_settings :: Settings where
  "test_settings =
     \<lparr>app_name = ''Event Board'', secret_key = ''k'', algorithm = ''HS256'',
      access_token_expire_minutes = 1440, database_url = ''''\<rparr>"

definition db_alice :: db where
  "db_alice =
     [\<lparr>user_id = ''u1'', user_email = ''a@x.com'', user_password_hash = None,
       user_passwordHash = Some ''$pbkdf2-sha256$secret1''\<rparr>]"

definition db_corrupt :: db where
  "db_corrupt =
     [\<lparr>user_id = ''u1'', user_email = ''a@x.com'', user_password_hash = None,
       user_passwordHash = Some ''not-a-hash''\<rparr>]"

text \<open>
  Requests for the runs below: a header token for alice with a cookie token for bob,
  the same header with a cookie that is no token, a header that is no token with the
  cookie of bob, a header of another scheme with the cookie of bob, and requests
  carrying only a cookie or only a header.
\<close>

definition request_both :: Request where
  "request_both =
     \<lparr>headers = [''Authorization'' \<mapsto> ''Bearer k|HS256|alice''],
      cookies = [''access_token'' \<mapsto> ''k|HS256|bob'']\<rparr>"

definition request_bad_cookie :: Request where
  "request_bad_cookie =
     \<lparr>headers = [''Authorization'' \<mapsto> ''Bearer k|HS256|alice''],
      cookies = [''access_token'' \<mapsto> ''garbage'']\<rparr>"

definition request_bad_header :: Request where
  "request_bad_header =
     \<lparr>headers = [''Authorization'' \<mapsto> ''Bearer garbage''],
      cookies = [''access_token'' \<mapsto> ''k|HS256|bob'']\<rparr>"

definition request_basic :: Request where
  "request_basic =
     \<lparr>headers = [''Authorization'' \<mapsto> ''Basic abc''],
      cookies = [''access_token'' \<mapsto> ''k|HS256|bob'']\<rparr>"

definition request_cookie :: "string \<Rightarrow> Request" where
  "request_cookie tok = \<lparr>headers = Map.empty, cookies = [''access_token'' \<mapsto> tok]\<rparr>"

definition request_header :: "string \<Rightarrow> Request" where
  "request_header tok =
     \<lparr>headers = [''Authorization'' \<mapsto> ''Bearer '' @ tok], cookies = Map.empty\<rparr>"

section \<open>The failures the routes signal\<close>

text \<open>
  The spec's names for the exceptions the code raises: \<open>Unauthenticated\<close> is either of
  the two 401 responses of \<open>get_current_user_id\<close>, both with the challenge header;
  the others are single values.
\<close>

definition Unauthenticated :: "py_exception set" where
  "Unauthenticated =
     {HTTPException 401 ''Not authenticated'' (Some [(''WWW-Authenticate'', ''Bearer'')]),
      HTTPException 401 ''Invalid or expired token'' (Some [(''WWW-Authenticate'', ''Bearer'')])}"

definition InvalidCredentials :: py_exception where
  "InvalidCredentials = HTTPException 401 ''Invalid email or password'' None"

definition DuplicateEmail :: py_exception where
  "DuplicateEmail = HTTPException 400 ''Email already registered'' None"

definition AccountNotFound :: py_exception where
  "AccountNotFound = HTTPException 401 ''User not found'' None"

section \<open>The stand-ins meet the guarantees\<close>

lemma fake_jose_roundtrip: "jose_roundtrip fake_jose"
  unfolding jose_roundtrip_def fake_jose_def
  by (auto simp: fake_encode_def fake_decode_def split: option.splits)

lemma fake_jose_raises_JWTError: "jose_raises_JWTError fake_jose"
  unfolding jose_raises_JWTError_def fake_jose_def
  by (auto simp: fake_decode_def split: option.splits list.splits if_splits)








section \<open>Facts about the resolvers\<close>

lemma security_bearer_Bearer:
  "headers request ''Authorization'' = Some (''Bearer '' @ t) \<Longrightarrow>
   security_bearer request =
     (if t = [] then None else Some \<lparr>scheme = ''Bearer'', credentials = t\<rparr>)"
  by (simp add: security_bearer_def get_authorization_scheme_param_def lower_def lower_char_def)

lemma security_bearer_credentials:
  "security_bearer request = Some c \<Longrightarrow> credentials c \<noteq> []"
  by (auto simp: security_bearer_def Let_def split: prod.splits if_splits)

lemma decode_access_token_Inl:
  "jose_raises_JWTError J \<Longrightarrow> decode_access_token J settings now t \<noteq> Inl e"
  unfolding jose_raises_JWTError_def decode_access_token_def
  by (auto split: sum.splits)

text \<open>The required resolver as a function of the candidate token it selects.\<close>

lemma required_cases:
  "get_current_user_id J settings now creds request =
     (case (case creds of Some c \<Rightarrow> Some (credentials c) | None \<Rightarrow> cookies request COOKIE_NAME) of
        None \<Rightarrow>
          Inl (HTTPException 401 ''Not authenticated'' (Some [(''WWW-Authenticate'', ''Bearer'')]))
      | Some t \<Rightarrow>
          if t = [] then
            Inl (HTTPException 401 ''Not authenticated'' (Some [(''WWW-Authenticate'', ''Bearer'')]))
          else
            (case decode_access_token J settings now t of
               Inl e \<Rightarrow> Inl e
             | Inr None \<Rightarrow>
                 Inl (HTTPException 401 ''Invalid or expired token''
                        (Some [(''WWW-Authenticate'', ''Bearer'')]))
             | Inr (Some u) \<Rightarrow>
                 if u = [] then
                   Inl (HTTPException 401 ''Invalid or expired token''
                          (Some [(''WWW-Authenticate'', ''Bearer'')]))
                 else Inr u))"
  by (simp add: get_current_user_id_def Let_def split: option.splits sum.splits)

lemma get_current_user_id_Inr:
  "get_current_user_id J settings now creds request = Inr u \<longleftrightarrow>
     (\<exists>t. (case creds of Some c \<Rightarrow> Some (credentials c) | None \<Rightarrow> cookies request COOKIE_NAME) = Some t
          \<and> t \<noteq> [] \<and> decode_access_token J settings now t = Inr (Some u) \<and> u \<noteq> [])"
  by (auto simp: get_current_user_id_def Let_def split: option.splits sum.splits if_splits)

lemma get_current_user_id_Inl:
  "get_current_user_id J settings now creds request = Inl e \<Longrightarrow>
     e \<in> Unauthenticated \<or> (\<exists>t. decode_access_token J settings now t = Inl e)"
  by (auto simp: get_current_user_id_def Unauthenticated_def Let_def
      split: option.splits sum.splits if_splits)

lemma depends_current_user_id_Inl:
  assumes "jose_raises_JWTError J" and "depends_current_user_id J settings now request = Inl e"
  shows "e \<in> Unauthenticated"
  using get_current_user_id_Inl [OF assms(2) [unfolded depends_current_user_id_def]]
    decode_access_token_Inl [OF assms(1)]
  by auto

text \<open>Both resolvers as functions of their candidate tokens.\<close>

lemma startswith_Bearer_split: "startswith_Bearer s \<Longrightarrow> s = ''Bearer '' @ drop 7 s"
  unfolding startswith_Bearer_def by (metis append_take_drop_id)

lemma depends_as_candidate:
  "depends_current_user_id J settings now request =
     (case required_candidate request of
        None \<Rightarrow>
          Inl (HTTPException 401 ''Not authenticated'' (Some [(''WWW-Authenticate'', ''Bearer'')]))
      | Some t \<Rightarrow>
          if t = [] then
            Inl (HTTPException 401 ''Not authenticated'' (Some [(''WWW-Authenticate'', ''Bearer'')]))
          else
            (case decode_access_token J settings now t of
               Inl e \<Rightarrow> Inl e
             | Inr None \<Rightarrow>
                 Inl (HTTPException 401 ''Invalid or expired token''
                        (Some [(''WWW-Authenticate'', ''Bearer'')]))
             | Inr (Some u) \<Rightarrow>
                 if u = [] then
                   Inl (HTTPException 401 ''Invalid or expired token''
                          (Some [(''WWW-Authenticate'', ''Bearer'')]))
                 else Inr u))"
  by (simp add: depends_current_user_id_def required_cases required_candidate_def)

lemma optional_as_candidate:
  "get_optional_user_id J settings now request =
     (case optional_candidate request of
        None \<Rightarrow> Inr None
      | Some t \<Rightarrow> if t = [] then Inr None else decode_access_token J settings now t)"
  by (simp add: get_optional_user_id_def optional_candidate_def Let_def)

lemma resolvers_on_candidates:
  assumes R: "R = (case tok of
        None \<Rightarrow>
          Inl (HTTPException 401 ''Not authenticated'' (Some [(''WWW-Authenticate'', ''Bearer'')]))
      | Some t \<Rightarrow>
          if t = [] then
            Inl (HTTPException 401 ''Not authenticated'' (Some [(''WWW-Authenticate'', ''Bearer'')]))
          else
            (case decode_access_token J settings now t of
               Inl e \<Rightarrow> Inl e
             | Inr None \<Rightarrow>
                 Inl (HTTPException 401 ''Invalid or expired token''
                        (Some [(''WWW-Authenticate'', ''Bearer'')]))
             | Inr (Some u) \<Rightarrow>
                 if u = [] then
                   Inl (HTTPException 401 ''Invalid or expired token''
                          (Some [(''WWW-Authenticate'', ''Bearer'')]))
                 else Inr u))"
    and O: "Opt = (case tok' of
        None \<Rightarrow> Inr None
      | Some t \<Rightarrow> if t = [] then Inr None else decode_access_token J settings now t)"
    and same: "tok = tok' \<or> (\<not> truthy tok \<and> \<not> truthy tok')"
  shows "(\<forall>u. R = Inr u \<longleftrightarrow> Opt = Inr (Some u) \<and> u \<noteq> []) \<and>
         ((\<exists>r. Opt = Inr r) \<longrightarrow>
            ((\<exists>e\<in>Unauthenticated. R = Inl e) \<longleftrightarrow> Opt = Inr None \<or> Opt = Inr (Some [])))"
proof (cases "truthy tok")
  case False
  with same have f': "\<not> truthy tok'" by auto
  from False R have "R = Inl (HTTPException 401 ''Not authenticated'' (Some [(''WWW-Authenticate'', ''Bearer'')]))"
    by (cases tok) auto
  moreover from f' O have "Opt = Inr None"
    by (cases tok') auto
  ultimately show ?thesis by (simp add: Unauthenticated_def)
next
  case True
  with same have eq: "tok' = tok" by auto
  from True obtain t where t: "tok = Some t" "t \<noteq> []" by (cases tok) auto
  show ?thesis
  proof (cases "decode_access_token J settings now t")
    case (Inl e)
    with t eq R O show ?thesis by simp
  next
    case (Inr r)
    with t eq R O show ?thesis
      by (cases r) (auto simp: Unauthenticated_def)
  qed
qed

lemma same_candidate_iff:
  "same_candidate request \<longleftrightarrow>
     security_bearer request = None \<or>
     (\<not> truthy (cookies request COOKIE_NAME) \<and>
      (\<exists>t. headers request ''Authorization'' = Some (''Bearer '' @ t))) \<or>
     (\<exists>c. security_bearer request = Some c \<and> cookies request COOKIE_NAME = Some (credentials c))"
  (is "?L \<longleftrightarrow> ?A \<or> ?B \<or> ?C")
proof
  assume L: ?L
  show "?A \<or> ?B \<or> ?C"
  proof (cases "security_bearer request")
    case None
    then show ?thesis by simp
  next
    case (Some c)
    then have ne: "credentials c \<noteq> []" by (rule security_bearer_credentials)
    from Some have rc: "required_candidate request = Some (credentials c)"
      by (simp add: required_candidate_def)
    with L ne have oc: "optional_candidate request = Some (credentials c)"
      by (auto simp: same_candidate_def)
    show ?thesis
    proof (cases "truthy (cookies request COOKIE_NAME)")
      case True
      with oc have "cookies request COOKIE_NAME = Some (credentials c)"
        by (simp add: optional_candidate_def)
      with Some show ?thesis by simp
    next
      case False
      with oc ne obtain auth where a: "headers request ''Authorization'' = Some auth"
        "startswith_Bearer auth"
        by (cases "cookies request COOKIE_NAME")
           (auto simp: optional_candidate_def Let_def split: option.splits if_splits)
      from startswith_Bearer_split [OF a(2)] a(1)
      have "\<exists>t. headers request ''Authorization'' = Some (''Bearer '' @ t)" by metis
      with False show ?thesis by simp
    qed
  qed
next
  assume "?A \<or> ?B \<or> ?C"
  then show ?L
  proof (elim disjE)
    assume a: ?A
    then have rc: "required_candidate request = cookies request COOKIE_NAME"
      by (simp add: required_candidate_def)
    show ?thesis
    proof (cases "truthy (cookies request COOKIE_NAME)")
      case True
      with rc show ?thesis by (simp add: same_candidate_def optional_candidate_def)
    next
      case False
      have "\<not> truthy (optional_candidate request)"
      proof (cases "headers request ''Authorization''")
        case None
        with False show ?thesis by (simp add: optional_candidate_def)
      next
        case (Some auth)
        show ?thesis
        proof (cases "startswith_Bearer auth")
          case True
          from startswith_Bearer_split [OF True] Some
          have h: "headers request ''Authorization'' = Some (''Bearer '' @ drop 7 auth)" by simp
          from security_bearer_Bearer [OF h] a have "drop 7 auth = []"
            by (simp split: if_splits)
          with False Some show ?thesis by (simp add: optional_candidate_def)
        next
          case no: False
          with False Some show ?thesis by (simp add: optional_candidate_def)
        qed
      qed
      with False rc show ?thesis by (simp add: same_candidate_def)
    qed
  next
    assume b: ?B
    then obtain t where c: "\<not> truthy (cookies request COOKIE_NAME)"
      and h: "headers request ''Authorization'' = Some (''Bearer '' @ t)" by blast
    from c h have oc: "optional_candidate request = Some t"
      by (simp add: optional_candidate_def startswith_Bearer_def)
    from security_bearer_Bearer [OF h] c
    have "required_candidate request = Some t \<or> (t = [] \<and> \<not> truthy (required_candidate request))"
      by (simp add: required_candidate_def)
    with oc show ?thesis by (auto simp: same_candidate_def)
  next
    assume c: ?C
    then obtain cr where s: "security_bearer request = Some cr"
      and k: "cookies request COOKIE_NAME = Some (credentials cr)" by blast
    from s have ne: "credentials cr \<noteq> []" by (rule security_bearer_credentials)
    from s k ne show ?thesis
      by (simp add: same_candidate_def required_candidate_def optional_candidate_def)
  qed
qed

lemma optional_returns:
  assumes "\<forall>t e. optional_candidate request = Some t \<and>
           jwt_decode J t (secret_key settings) [algorithm settings] now = Inl e \<longrightarrow>
           isinstance_JWTError e"
  shows "\<exists>r. get_optional_user_id J settings now request = Inr r"
proof (cases "optional_candidate request")
  case None
  then show ?thesis by (simp add: optional_as_candidate)
next
  case (Some t)
  show ?thesis
  proof (cases "jwt_decode J t (secret_key settings) [algorithm settings] now")
    case (Inl e)
    with assms Some have "isinstance_JWTError e" by blast
    with Inl Some show ?thesis
      by (simp add: optional_as_candidate decode_access_token_def)
  next
    case (Inr c)
    with Some show ?thesis
      by (simp add: optional_as_candidate decode_access_token_def)
  qed
qed

section \<open>Facts about the user table and the routes\<close>

lemma find_unique_email_Some:
  "(\<exists>u\<in>set d. user_email u = e) \<longleftrightarrow> (\<exists>u. find_unique_email d e = Some u)"
  unfolding find_unique_email_def by (induction d) auto



lemma signin_db: "snd (signin J ctx settings now body d) = d"
  by (simp add: signin_def Let_def split: option.splits sum.splits)

lemma signup_alice:
  "signup fake_jose fake_pwd_context test_settings 0 ''u1'' ''salt''
      \<lparr>email = ''a@x.com'', password = ''secret1''\<rparr> [] =
     (Inr \<lparr>access_token = ''k|HS256|u1'', token_type = ''bearer''\<rparr>, db_alice)"
  by (simp add: signup_def find_unique_email_def user_create_def hash_password_def
      fake_pwd_context_def create_access_token_def fake_jose_def fake_encode_def test_settings_def
      db_alice_def Let_def)

section \<open>Session resolver\<close>

text \<open>
  Claim C1, as the code has it. When the request carries a bearer header token, the
  required resolver succeeds exactly with the non-empty subject that token decodes to,
  whatever the cookie holds. The optional resolver reads the cookie first: with a
  non-empty access-token cookie it returns what the cookie token decodes to and never
  looks at the header; only without one does it decode the token after \<open>Bearer \<close>.
\<close>

theorem token_precedence:
  "(security_bearer request = Some c \<longrightarrow>
      (\<forall>u. depends_current_user_id J settings now request = Inr u \<longleftrightarrow>
           decode_access_token J settings now (credentials c) = Inr (Some u) \<and> u \<noteq> [])) \<and>
   (cookies request COOKIE_NAME = Some ck \<and> ck \<noteq> [] \<longrightarrow>
      get_optional_user_id J settings now request = decode_access_token J settings now ck) \<and>
   (\<not> truthy (cookies request COOKIE_NAME) \<and>
    headers request ''Authorization'' = Some (''Bearer '' @ t) \<and> t \<noteq> [] \<longrightarrow>
      get_optional_user_id J settings now request = decode_access_token J settings now t)"
proof (intro conjI impI allI)
  fix u assume sb: "security_bearer request = Some c"
  then have "credentials c \<noteq> []" by (rule security_bearer_credentials)
  with sb show "depends_current_user_id J settings now request = Inr u \<longleftrightarrow>
           decode_access_token J settings now (credentials c) = Inr (Some u) \<and> u \<noteq> []"
    by (simp add: depends_current_user_id_def get_current_user_id_Inr)
next
  assume "cookies request COOKIE_NAME = Some ck \<and> ck \<noteq> []"
  then show "get_optional_user_id J settings now request = decode_access_token J settings now ck"
    by (simp add: get_optional_user_id_def)
next
  assume "\<not> truthy (cookies request COOKIE_NAME) \<and>
    headers request ''Authorization'' = Some (''Bearer '' @ t) \<and> t \<noteq> []"
  then show "get_optional_user_id J settings now request = decode_access_token J settings now t"
    by (simp add: get_optional_user_id_def startswith_Bearer_def)
qed

text \<open>
  The three cases of C1 at concrete requests: header and cookie together (the required
  resolver answers alice, the optional one bob), and a header alone.
\<close>

theorem token_precedence_witness:
  "security_bearer request_both = Some \<lparr>scheme = ''Bearer'', credentials = ''k|HS256|alice''\<rparr> \<and>
   depends_current_user_id fake_jose test_settings 0 request_both = Inr ''alice'' \<and>
   get_optional_user_id fake_jose test_settings 0 request_both = Inr (Some ''bob'') \<and>
   get_optional_user_id fake_jose test_settings 0 (request_header ''k|HS256|alice'') =
     Inr (Some ''alice'')"
proof -
  have sb: "security_bearer request_both =
      Some \<lparr>scheme = ''Bearer'', credentials = ''k|HS256|alice''\<rparr>"
    by (simp add: security_bearer_def request_both_def get_authorization_scheme_param_def
        lower_def lower_char_def)
  have da: "decode_access_token fake_jose test_settings 0 ''k|HS256|alice'' = Inr (Some ''alice'')"
    and db: "decode_access_token fake_jose test_settings 0 ''k|HS256|bob'' = Inr (Some ''bob'')"
    by (simp_all add: decode_access_token_def fake_jose_def fake_decode_def test_settings_def)
  have ck: "cookies request_both COOKIE_NAME = Some ''k|HS256|bob''"
    by (simp add: request_both_def COOKIE_NAME_def)
  have hd: "\<not> truthy (cookies (request_header ''k|HS256|alice'') COOKIE_NAME)"
    "headers (request_header ''k|HS256|alice'') ''Authorization'' =
       Some (''Bearer '' @ ''k|HS256|alice'')"
    by (simp_all add: request_header_def COOKIE_NAME_def)
  note t1 = token_precedence [of request_both
      "\<lparr>scheme = ''Bearer'', credentials = ''k|HS256|alice''\<rparr>"
      fake_jose test_settings 0 "''k|HS256|bob''" "''x''"]
  note t2 = token_precedence [of "request_header ''k|HS256|alice''"
      "\<lparr>scheme = ''Bearer'', credentials = ''k|HS256|alice''\<rparr>"
      fake_jose test_settings 0 "''''" "''k|HS256|alice''"]
  from t1 sb da
  have "depends_current_user_id fake_jose test_settings 0 request_both = Inr ''alice''"
    by simp
  moreover from t1 ck db
  have "get_optional_user_id fake_jose test_settings 0 request_both = Inr (Some ''bob'')"
    by simp
  moreover from t2 hd da
  have "get_optional_user_id fake_jose test_settings 0 (request_header ''k|HS256|alice'') =
      Inr (Some ''alice'')"
    by simp
  ultimately show ?thesis using sb by simp
qed

text \<open>
  C1 as stated fails for the optional resolver: on a request with the header token of
  alice and the cookie token of bob it returns bob, the cookie's subject, not what the
  header token decodes to.
\<close>

theorem token_precedence_counterexample:
  "security_bearer request_both = Some \<lparr>scheme = ''Bearer'', credentials = ''k|HS256|alice''\<rparr> \<and>
   cookies request_both COOKIE_NAME = Some ''k|HS256|bob'' \<and>
   decode_access_token fake_jose test_settings 0 ''k|HS256|alice'' = Inr (Some ''alice'') \<and>
   get_optional_user_id fake_jose test_settings 0 request_both = Inr (Some ''bob'') \<and>
   get_optional_user_id fake_jose test_settings 0 request_both \<noteq>
     decode_access_token fake_jose test_settings 0 ''k|HS256|alice''"
  by (simp add: security_bearer_def request_both_def get_authorization_scheme_param_def lower_def
      lower_char_def get_optional_user_id_def COOKIE_NAME_def decode_access_token_def
      fake_jose_def fake_decode_def test_settings_def)

text \<open>
  Claim C2, as the code has it. The optional resolver returns a value on every request
  for whose candidate token the library returns claims or raises a \<open>JWTError\<close>. On
  every request where the two resolvers settle on the same candidate token, the
  required one succeeds with exactly the non-empty subjects the optional one returns,
  and, when the optional one returns at all, fails with Unauthenticated exactly when
  that returns none or the empty subject. The requests with the same candidate are
  those for which the bearer dependency yields no credentials (no Authorization header,
  another scheme, nothing after the scheme), those without a non-empty cookie whose
  header starts with \<open>Bearer \<close>, and those whose cookie is the header's credentials.
\<close>

theorem optional_vs_required:
  "((\<forall>t e. optional_candidate request = Some t \<and>
           jwt_decode J t (secret_key settings) [algorithm settings] now = Inl e \<longrightarrow>
           isinstance_JWTError e) \<longrightarrow>
      (\<exists>r. get_optional_user_id J settings now request = Inr r)) \<and>
   (same_candidate request \<longrightarrow>
      (\<forall>u. depends_current_user_id J settings now request = Inr u \<longleftrightarrow>
           get_optional_user_id J settings now request = Inr (Some u) \<and> u \<noteq> []) \<and>
      ((\<exists>r. get_optional_user_id J settings now request = Inr r) \<longrightarrow>
        ((\<exists>e\<in>Unauthenticated. depends_current_user_id J settings now request = Inl e) \<longleftrightarrow>
           get_optional_user_id J settings now request = Inr None \<or>
           get_optional_user_id J settings now request = Inr (Some [])))) \<and>
   (same_candidate request \<longleftrightarrow>
      security_bearer request = None \<or>
      (\<not> truthy (cookies request COOKIE_NAME) \<and>
       (\<exists>t. headers request ''Authorization'' = Some (''Bearer '' @ t))) \<or>
      (\<exists>c. security_bearer request = Some c \<and>
           cookies request COOKIE_NAME = Some (credentials c)))"
proof (intro conjI)
  show "(\<forall>t e. optional_candidate request = Some t \<and>
           jwt_decode J t (secret_key settings) [algorithm settings] now = Inl e \<longrightarrow>
           isinstance_JWTError e) \<longrightarrow>
      (\<exists>r. get_optional_user_id J settings now request = Inr r)"
    using optional_returns [of request J settings now] by blast
  show "same_candidate request \<longrightarrow>
      (\<forall>u. depends_current_user_id J settings now request = Inr u \<longleftrightarrow>
           get_optional_user_id J settings now request = Inr (Some u) \<and> u \<noteq> []) \<and>
      ((\<exists>r. get_optional_user_id J settings now request = Inr r) \<longrightarrow>
        ((\<exists>e\<in>Unauthenticated. depends_current_user_id J settings now request = Inl e) \<longleftrightarrow>
           get_optional_user_id J settings now request = Inr None \<or>
           get_optional_user_id J settings now request = Inr (Some [])))"
  proof
    assume "same_candidate request"
    then have s: "required_candidate request = optional_candidate request \<or>
       (\<not> truthy (required_candidate request) \<and> \<not> truthy (optional_candidate request))"
      by (simp add: same_candidate_def)
    show "(\<forall>u. depends_current_user_id J settings now request = Inr u \<longleftrightarrow>
           get_optional_user_id J settings now request = Inr (Some u) \<and> u \<noteq> []) \<and>
      ((\<exists>r. get_optional_user_id J settings now request = Inr r) \<longrightarrow>
        ((\<exists>e\<in>Unauthenticated. depends_current_user_id J settings now request = Inl e) \<longleftrightarrow>
           get_optional_user_id J settings now request = Inr None \<or>
           get_optional_user_id J settings now request = Inr (Some [])))"
      by (rule resolvers_on_candidates [OF depends_as_candidate optional_as_candidate s])
  qed
  show "same_candidate request \<longleftrightarrow>
      security_bearer request = None \<or>
      (\<not> truthy (cookies request COOKIE_NAME) \<and>
       (\<exists>t. headers request ''Authorization'' = Some (''Bearer '' @ t))) \<or>
      (\<exists>c. security_bearer request = Some c \<and>
           cookies request COOKIE_NAME = Some (credentials c))"
    by (rule same_candidate_iff)
qed

text \<open>
  C2 on a request with a header of another scheme and the cookie of bob, where both
  resolvers answer bob, and on a request that carries only a cookie which is no token,
  where the optional one returns none and the required one fails with Unauthenticated.
\<close>

theorem optional_vs_required_witness:
  "security_bearer request_basic = None \<and>
   same_candidate request_basic \<and>
   get_optional_user_id fake_jose test_settings 0 request_basic = Inr (Some ''bob'') \<and>
   depends_current_user_id fake_jose test_settings 0 request_basic = Inr ''bob'' \<and>
   get_optional_user_id fake_jose test_settings 0 (request_cookie ''garbage'') = Inr None \<and>
   (\<exists>e\<in>Unauthenticated.
      depends_current_user_id fake_jose test_settings 0 (request_cookie ''garbage'') = Inl e)"
proof -
  have sb: "security_bearer request_basic = None"
    by (simp add: security_bearer_def request_basic_def get_authorization_scheme_param_def
        lower_def lower_char_def)
  have ob: "get_optional_user_id fake_jose test_settings 0 request_basic = Inr (Some ''bob'')"
    by (simp add: get_optional_user_id_def request_basic_def COOKIE_NAME_def
        decode_access_token_def fake_jose_def fake_decode_def test_settings_def)
  have sg: "security_bearer (request_cookie ''garbage'') = None"
    by (simp add: security_bearer_def request_cookie_def get_authorization_scheme_param_def)
  have og: "get_optional_user_id fake_jose test_settings 0 (request_cookie ''garbage'') = Inr None"
    by (simp add: get_optional_user_id_def request_cookie_def COOKIE_NAME_def
        decode_access_token_def fake_jose_def fake_decode_def test_settings_def)
  note b = optional_vs_required [of request_basic fake_jose test_settings 0]
  note g = optional_vs_required [of "request_cookie ''garbage''" fake_jose test_settings 0]
  from b sb have same: "same_candidate request_basic" by blast
  with b ob have db: "depends_current_user_id fake_jose test_settings 0 request_basic = Inr ''bob''"
    by simp
  from g sg have "same_candidate (request_cookie ''garbage'')" by blast
  with g og have "\<exists>e\<in>Unauthenticated.
      depends_current_user_id fake_jose test_settings 0 (request_cookie ''garbage'') = Inl e"
    by simp
  with sb same ob db og show ?thesis by simp
qed

text \<open>
  C2 as stated fails. With a valid header token and a cookie that is no token the
  optional resolver returns none although the required one succeeds; with a header
  that is no token and a valid cookie the required resolver fails although the
  optional one returns a user; on a token with the empty subject the required resolver
  fails while the optional one returns the empty string, not none; and on a signed
  token whose expiry is null the optional resolver raises the library's \<open>TypeError\<close>.
\<close>

theorem optional_vs_required_counterexample:
  "get_optional_user_id fake_jose test_settings 0 request_bad_cookie = Inr None \<and>
   depends_current_user_id fake_jose test_settings 0 request_bad_cookie = Inr ''alice'' \<and>
   get_optional_user_id fake_jose test_settings 0 request_bad_header = Inr (Some ''bob'') \<and>
   depends_current_user_id fake_jose test_settings 0 request_bad_header =
     Inl (HTTPException 401 ''Invalid or expired token'' (Some [(''WWW-Authenticate'', ''Bearer'')])) \<and>
   get_optional_user_id fake_jose test_settings 0 (request_cookie ''k|HS256|'') = Inr (Some '''') \<and>
   depends_current_user_id fake_jose test_settings 0 (request_cookie ''k|HS256|'') =
     Inl (HTTPException 401 ''Invalid or expired token'' (Some [(''WWW-Authenticate'', ''Bearer'')])) \<and>
   get_optional_user_id clock_jose test_settings 0 (request_cookie ''k|HS256|n|u1'') = Inl TypeError"
  by (simp add: security_bearer_def request_bad_cookie_def request_bad_header_def request_cookie_def
      get_authorization_scheme_param_def lower_def
      lower_char_def get_optional_user_id_def COOKIE_NAME_def decode_access_token_def
      depends_current_user_id_def get_current_user_id_def
      fake_jose_def fake_decode_def test_settings_def
      clock_jose_def clock_decode_def clock_parse_exp_def)

text \<open>
  Claim C9. A request whose token resolves to a user identifier that the table no
  longer holds fails in \<open>get_current_user\<close> with the account-not-found exception.
  That exception is not one of the Unauthenticated ones, which are all a request
  without a valid token can get from the same chain.
\<close>

theorem account_not_found_distinct:
  "(depends_current_user_id J settings now request = Inr uid \<and> find_unique_id d uid = None \<longrightarrow>
      depends_current_user J settings now d request = Inl AccountNotFound) \<and>
   AccountNotFound \<notin> Unauthenticated \<and>
   (jose_raises_JWTError J \<longrightarrow>
      (\<forall>e. depends_current_user_id J settings now request = Inl e \<longrightarrow>
           e \<in> Unauthenticated \<and> depends_current_user J settings now d request = Inl e))"
proof (intro conjI)
  show "depends_current_user_id J settings now request = Inr uid \<and> find_unique_id d uid = None \<longrightarrow>
      depends_current_user J settings now d request = Inl AccountNotFound"
    by (simp add: depends_current_user_def get_current_user_def AccountNotFound_def)
  show "AccountNotFound \<notin> Unauthenticated"
    by (simp add: AccountNotFound_def Unauthenticated_def)
  show "jose_raises_JWTError J \<longrightarrow>
      (\<forall>e. depends_current_user_id J settings now request = Inl e \<longrightarrow>
           e \<in> Unauthenticated \<and> depends_current_user J settings now d request = Inl e)"
    by (auto simp: depends_current_user_def dest: depends_current_user_id_Inl)
qed

text \<open>
  C9 at a table without the user ghost: a valid header token for ghost gets the
  account-not-found exception, a cookie that is no token gets an Unauthenticated one.
\<close>

theorem account_not_found_distinct_witness:
  "depends_current_user_id fake_jose test_settings 0 (request_header ''k|HS256|ghost'') =
     Inr ''ghost'' \<and>
   find_unique_id db_alice ''ghost'' = None \<and>
   depends_current_user fake_jose test_settings 0 db_alice (request_header ''k|HS256|ghost'') =
     Inl AccountNotFound \<and>
   depends_current_user fake_jose test_settings 0 db_alice (request_cookie ''garbage'') =
     Inl (HTTPException 401 ''Invalid or expired token'' (Some [(''WWW-Authenticate'', ''Bearer'')]))"
proof -
  have 1: "depends_current_user_id fake_jose test_settings 0 (request_header ''k|HS256|ghost'') =
      Inr ''ghost''"
    by (simp add: depends_current_user_id_def security_bearer_def request_header_def
        get_authorization_scheme_param_def lower_def lower_char_def get_current_user_id_def
        decode_access_token_def fake_jose_def fake_decode_def test_settings_def)
  have 2: "find_unique_id db_alice ''ghost'' = None"
    by (simp add: find_unique_id_def db_alice_def)
  have 3: "depends_current_user_id fake_jose test_settings 0 (request_cookie ''garbage'') =
     Inl (HTTPException 401 ''Invalid or expired token'' (Some [(''WWW-Authenticate'', ''Bearer'')]))"
    by (simp add: depends_current_user_id_def security_bearer_def request_cookie_def
        get_authorization_scheme_param_def get_current_user_id_def COOKIE_NAME_def
        decode_access_token_def fake_jose_def fake_decode_def test_settings_def)
  from account_not_found_distinct [of fake_jose test_settings 0
      "request_header ''k|HS256|ghost''" "''ghost''" db_alice] 1 2
  have a: "depends_current_user fake_jose test_settings 0 db_alice
      (request_header ''k|HS256|ghost'') = Inl AccountNotFound"
    by blast
  from account_not_found_distinct [of fake_jose test_settings 0
      "request_cookie ''garbage''" "''x''" db_alice] fake_jose_raises_JWTError 3
  have b: "depends_current_user fake_jose test_settings 0 db_alice (request_cookie ''garbage'') =
     Inl (HTTPException 401 ''Invalid or expired token'' (Some [(''WWW-Authenticate'', ''Bearer'')]))"
    by blast
  from 1 2 a b show ?thesis by simp
qed

text \<open>
  Claim C10. A token that the library accepts but whose claims hold no subject decodes
  to none, and the required resolver rejects it with an Unauthenticated exception,
  whether it came in the header or in the cookie; for a non-empty token that exception
  is the invalid-or-expired one.
\<close>

theorem missing_sub_rejected:
  assumes "jwt_decode J token (secret_key settings) [algorithm settings] now = Inr payload"
    and "claim_sub payload = None"
  shows "decode_access_token J settings now token = Inr None \<and>
     (\<exists>e\<in>Unauthenticated.
        get_current_user_id J settings now (Some \<lparr>scheme = s, credentials = token\<rparr>) request =
          Inl e) \<and>
     (cookies request COOKIE_NAME = Some token \<longrightarrow>
        (\<exists>e\<in>Unauthenticated. get_current_user_id J settings now None request = Inl e)) \<and>
     (token \<noteq> [] \<longrightarrow>
        get_current_user_id J settings now (Some \<lparr>scheme = s, credentials = token\<rparr>) request =
          Inl (HTTPException 401 ''Invalid or expired token''
                 (Some [(''WWW-Authenticate'', ''Bearer'')])))"
proof -
  from assms have d: "decode_access_token J settings now token = Inr None"
    by (simp add: decode_access_token_def)
  then show ?thesis
    by (simp add: required_cases Unauthenticated_def)
qed

text \<open>C10 at the stand-in's token without a subject.\<close>

theorem missing_sub_rejected_witness:
  "jwt_decode fake_jose ''k|HS256'' (secret_key test_settings) [algorithm test_settings] 0 =
     Inr \<lparr>claim_exp = None, claim_sub = None\<rparr> \<and>
   decode_access_token fake_jose test_settings 0 ''k|HS256'' = Inr None \<and>
   get_current_user_id fake_jose test_settings 0
     (Some \<lparr>scheme = ''Bearer'', credentials = ''k|HS256''\<rparr>) (request_cookie ''k|HS256'') =
     Inl (HTTPException 401 ''Invalid or expired token'' (Some [(''WWW-Authenticate'', ''Bearer'')]))"
proof -
  have d: "jwt_decode fake_jose ''k|HS256'' (secret_key test_settings) [algorithm test_settings] 0 =
     Inr \<lparr>claim_exp = None, claim_sub = None\<rparr>"
    by (simp add: fake_jose_def fake_decode_def test_settings_def)
  from missing_sub_rejected [OF d, of "''Bearer''" "request_cookie ''k|HS256''"] d
  show ?thesis by simp
qed

section \<open>Credential hasher and token codec\<close>

text \<open>
  Claim C3, as the code has it. \<open>verify_password\<close> hands both arguments to the
  context's \<open>verify\<close> and returns its answer unchanged: it is false on a stored hash
  exactly when the context says false, and an exception of the context reaches the
  caller, for no handler stands in between.
\<close>

theorem verify_password_propagates:
  "verify_password ctx plain_password hashed_password =
     ctx_verify ctx plain_password hashed_password"
  by (simp add: verify_password_def)

text \<open>
  C3 as stated fails: on a stored hash that no configured scheme identifies, the
  context raises and so does \<open>verify_password\<close>.
\<close>

theorem verify_password_counterexample:
  "verify_password fake_pwd_context ''secret1'' ''not-a-hash'' = Inl UnknownHashError"
  by (simp add: verify_password_def fake_pwd_context_def)

text \<open>
  Claim C6. A token made for subject \<open>s\<close> with a positive lifetime \<open>t\<close> decodes to
  \<open>s\<close> at any instant up to its expiry, under the same settings, given the library's
  round trip.
\<close>

theorem decode_create_roundtrip:
  assumes "jose_roundtrip J" and "0 < t" and "now' \<le> now + t"
    and "create_access_token J settings now s (Some t) = Inr tok"
  shows "decode_access_token J settings now' tok = Inr (Some s)"
proof -
  from assms(2,4) have enc:
    "jwt_encode J \<lparr>claim_exp = Some (now + t), claim_sub = Some s\<rparr>
       (secret_key settings) (algorithm settings) = Inr tok"
    by (simp add: create_access_token_def)
  with assms(1,3) obtain c' where
    "jwt_decode J tok (secret_key settings) [algorithm settings] now' = Inr c'"
    "claim_sub c' = Some s"
    unfolding jose_roundtrip_def by fastforce
  then show ?thesis by (simp add: decode_access_token_def)
qed

text \<open>C6 for a token made at instant 100 with lifetime 5 and decoded at 103.\<close>

theorem decode_create_roundtrip_witness:
  "create_access_token fake_jose test_settings 100 ''user-1'' (Some 5) = Inr ''k|HS256|user-1'' \<and>
   decode_access_token fake_jose test_settings 103 ''k|HS256|user-1'' = Inr (Some ''user-1'')"
proof -
  have c: "create_access_token fake_jose test_settings 100 ''user-1'' (Some 5) =
      Inr ''k|HS256|user-1''"
    by (simp add: create_access_token_def fake_jose_def fake_encode_def test_settings_def)
  from decode_create_roundtrip [OF fake_jose_roundtrip _ _ c, of 103] c show ?thesis by simp
qed




section \<open>Account service\<close>

text \<open>
  Claim C4. When the table already holds an account with the request's email, signup
  fails with the duplicate-email exception (400) and returns the table as it was, so no
  row is added and no stored hash changes. When signup succeeds no such account
  existed and the table it returns is the old one with exactly one new row, for the
  request's email.
\<close>

theorem signup_duplicate_email:
  "((\<exists>u\<in>set d. user_email u = email body) \<longrightarrow>
      signup J ctx settings now new_id salt body d = (Inl DuplicateEmail, d)) \<and>
   (\<forall>tok d'. signup J ctx settings now new_id salt body d = (Inr tok, d') \<longrightarrow>
      (\<forall>u\<in>set d. user_email u \<noteq> email body) \<and>
      d' = d @ [\<lparr>user_id = new_id, user_email = email body, user_password_hash = None,
                 user_passwordHash = Some (hash_password ctx salt (password body))\<rparr>] \<and>
      length d' = length d + 1)"
proof (rule conjI)
  show "(\<exists>u\<in>set d. user_email u = email body) \<longrightarrow>
      signup J ctx settings now new_id salt body d = (Inl DuplicateEmail, d)"
    by (auto simp: find_unique_email_Some signup_def DuplicateEmail_def)
next
  show "\<forall>tok d'. signup J ctx settings now new_id salt body d = (Inr tok, d') \<longrightarrow>
      (\<forall>u\<in>set d. user_email u \<noteq> email body) \<and>
      d' = d @ [\<lparr>user_id = new_id, user_email = email body, user_password_hash = None,
                 user_passwordHash = Some (hash_password ctx salt (password body))\<rparr>] \<and>
      length d' = length d + 1"
  proof (intro allI impI)
    fix tok d'
    assume s: "signup J ctx settings now new_id salt body d = (Inr tok, d')"
    then have n: "find_unique_email d (email body) = None"
      by (auto simp: signup_def split: option.splits)
    then have a: "\<forall>u\<in>set d. user_email u \<noteq> email body"
      using find_unique_email_Some [of d "email body"] by auto
    from s n have "d' = d @ [\<lparr>user_id = new_id, user_email = email body,
                 user_password_hash = None,
                 user_passwordHash = Some (hash_password ctx salt (password body))\<rparr>]"
      by (auto simp: signup_def user_create_def Let_def split: sum.splits)
    with a show "(\<forall>u\<in>set d. user_email u \<noteq> email body) \<and>
      d' = d @ [\<lparr>user_id = new_id, user_email = email body, user_password_hash = None,
                 user_passwordHash = Some (hash_password ctx salt (password body))\<rparr>] \<and>
      length d' = length d + 1" by simp
  qed
qed

text \<open>
  C4 on the spec's example: the first signup for \<open>a@x.com\<close> adds one row to the empty
  table, the second fails and leaves that row as it is.
\<close>

theorem signup_duplicate_email_witness:
  "signup fake_jose fake_pwd_context test_settings 5 ''u2'' ''salt''
      \<lparr>email = ''a@x.com'', password = ''secret2''\<rparr> db_alice = (Inl DuplicateEmail, db_alice) \<and>
   signup fake_jose fake_pwd_context test_settings 0 ''u1'' ''salt''
      \<lparr>email = ''a@x.com'', password = ''secret1''\<rparr> [] =
     (Inr \<lparr>access_token = ''k|HS256|u1'', token_type = ''bearer''\<rparr>, db_alice) \<and>
   length db_alice = length ([] :: db) + 1"
proof -
  have a: "\<exists>u\<in>set db_alice. user_email u = email \<lparr>email = ''a@x.com'', password = ''secret2''\<rparr>"
    by (simp add: db_alice_def)
  from signup_duplicate_email [of db_alice "\<lparr>email = ''a@x.com'', password = ''secret2''\<rparr>"
      fake_jose fake_pwd_context test_settings 5 "''u2''" "''salt''"] a
  have 1: "signup fake_jose fake_pwd_context test_settings 5 ''u2'' ''salt''
      \<lparr>email = ''a@x.com'', password = ''secret2''\<rparr> db_alice = (Inl DuplicateEmail, db_alice)"
    by blast
  from signup_duplicate_email [of "[]" "\<lparr>email = ''a@x.com'', password = ''secret1''\<rparr>"
      fake_jose fake_pwd_context test_settings 0 "''u1''" "''salt''"] signup_alice
  have 2: "length db_alice = length ([] :: db) + 1" by blast
  from 1 2 signup_alice show ?thesis by simp
qed

text \<open>
  Claim C5, as the code has it. Signin answers with the same exception, the generic 401
  for invalid credentials, in each of these failing cases: no account has the email,
  the account has no stored hash, the context's \<open>verify\<close> answers false. It never
  changes the table. Every other failure of signin is an exception that the context's
  \<open>verify\<close> raised on the stored hash, or that the token encoder raised, passed on
  as it is.
\<close>

theorem signin_generic_failure:
  "(find_unique_email d (email body) = None \<or>
     (\<exists>u. find_unique_email d (email body) = Some u \<and>
          \<not> truthy (py_or (user_password_hash u) (user_passwordHash u))) \<or>
     (\<exists>u h. find_unique_email d (email body) = Some u \<and>
          py_or (user_password_hash u) (user_passwordHash u) = Some h \<and> h \<noteq> [] \<and>
          verify_password ctx (password body) h = Inr False) \<longrightarrow>
      signin J ctx settings now body d = (Inl InvalidCredentials, d)) \<and>
   snd (signin J ctx settings now body d) = d \<and>
   (\<forall>e. fst (signin J ctx settings now body d) = Inl e \<longrightarrow>
      e = InvalidCredentials \<or>
      (\<exists>u h. find_unique_email d (email body) = Some u \<and>
          py_or (user_password_hash u) (user_passwordHash u) = Some h \<and> h \<noteq> [] \<and>
          (verify_password ctx (password body) h = Inl e \<or>
           verify_password ctx (password body) h = Inr True \<and>
           create_access_token J settings now (user_id u)
             (Some (timedelta_minutes (access_token_expire_minutes settings))) = Inl e)))"
proof (intro conjI)
  show "find_unique_email d (email body) = None \<or>
     (\<exists>u. find_unique_email d (email body) = Some u \<and>
          \<not> truthy (py_or (user_password_hash u) (user_passwordHash u))) \<or>
     (\<exists>u h. find_unique_email d (email body) = Some u \<and>
          py_or (user_password_hash u) (user_passwordHash u) = Some h \<and> h \<noteq> [] \<and>
          verify_password ctx (password body) h = Inr False) \<longrightarrow>
      signin J ctx settings now body d = (Inl InvalidCredentials, d)"
    by (auto simp: signin_def InvalidCredentials_def Let_def split: option.splits)
  show "snd (signin J ctx settings now body d) = d"
    by (rule signin_db)
  show "\<forall>e. fst (signin J ctx settings now body d) = Inl e \<longrightarrow>
      e = InvalidCredentials \<or>
      (\<exists>u h. find_unique_email d (email body) = Some u \<and>
          py_or (user_password_hash u) (user_passwordHash u) = Some h \<and> h \<noteq> [] \<and>
          (verify_password ctx (password body) h = Inl e \<or>
           verify_password ctx (password body) h = Inr True \<and>
           create_access_token J settings now (user_id u)
             (Some (timedelta_minutes (access_token_expire_minutes settings))) = Inl e))"
  proof (intro allI impI)
    fix e
    assume f: "fst (signin J ctx settings now body d) = Inl e"
    show "e = InvalidCredentials \<or>
      (\<exists>u h. find_unique_email d (email body) = Some u \<and>
          py_or (user_password_hash u) (user_passwordHash u) = Some h \<and> h \<noteq> [] \<and>
          (verify_password ctx (password body) h = Inl e \<or>
           verify_password ctx (password body) h = Inr True \<and>
           create_access_token J settings now (user_id u)
             (Some (timedelta_minutes (access_token_expire_minutes settings))) = Inl e))"
    proof (cases "find_unique_email d (email body)")
      case None
      with f show ?thesis by (simp add: signin_def InvalidCredentials_def)
    next
      case (Some u)
      show ?thesis
      proof (cases "py_or (user_password_hash u) (user_passwordHash u)")
        case None
        with Some f show ?thesis by (simp add: signin_def InvalidCredentials_def)
      next
        case h: (Some h)
        show ?thesis
        proof (cases "h = []")
          case True
          with Some h f show ?thesis by (simp add: signin_def InvalidCredentials_def)
        next
          case False
          show ?thesis
          proof (cases "verify_password ctx (password body) h")
            case (Inl x)
            with Some h False f show ?thesis by (simp add: signin_def)
          next
            case (Inr ok)
            with Some h False f show ?thesis
              by (cases ok)
                 (auto simp: signin_def InvalidCredentials_def split: sum.splits)
          qed
        qed
      qed
    qed
  qed
qed

text \<open>
  C5 on two runs against the same table, an unknown email and a wrong password: the
  results are the same value.
\<close>

theorem signin_generic_failure_witness:
  "signin fake_jose fake_pwd_context test_settings 0
      \<lparr>email = ''nobody@x.com'', password = ''secret1''\<rparr> db_alice =
     (Inl InvalidCredentials, db_alice) \<and>
   signin fake_jose fake_pwd_context test_settings 0
      \<lparr>email = ''a@x.com'', password = ''wrong''\<rparr> db_alice =
     (Inl InvalidCredentials, db_alice)"
proof -
  have 1: "find_unique_email db_alice
      (email \<lparr>email = ''nobody@x.com'', password = ''secret1''\<rparr>) = None"
    by (simp add: find_unique_email_def db_alice_def)
  have 2: "\<exists>u h. find_unique_email db_alice
            (email \<lparr>email = ''a@x.com'', password = ''wrong''\<rparr>) = Some u \<and>
          py_or (user_password_hash u) (user_passwordHash u) = Some h \<and> h \<noteq> [] \<and>
          verify_password fake_pwd_context
            (password \<lparr>email = ''a@x.com'', password = ''wrong''\<rparr>) h = Inr False"
    by (simp add: find_unique_email_def db_alice_def py_or_def verify_password_def
        fake_pwd_context_def)
  from signin_generic_failure [of db_alice "\<lparr>email = ''nobody@x.com'', password = ''secret1''\<rparr>"
      fake_pwd_context fake_jose test_settings 0] 1
    signin_generic_failure [of db_alice "\<lparr>email = ''a@x.com'', password = ''wrong''\<rparr>"
      fake_pwd_context fake_jose test_settings 0] 2
  show ?thesis by blast
qed

text \<open>
  C5 as stated fails: against a table whose row for \<open>a@x.com\<close> holds a hash that no
  scheme identifies, signin for that email surfaces the context's exception, while
  signin for an unknown email surfaces the generic 401, so the two runs differ.
\<close>

theorem signin_generic_failure_counterexample:
  "signin fake_jose fake_pwd_context test_settings 0
      \<lparr>email = ''a@x.com'', password = ''secret1''\<rparr> db_corrupt =
     (Inl UnknownHashError, db_corrupt) \<and>
   signin fake_jose fake_pwd_context test_settings 0
      \<lparr>email = ''nobody@x.com'', password = ''secret1''\<rparr> db_corrupt =
     (Inl InvalidCredentials, db_corrupt) \<and>
   UnknownHashError \<noteq> InvalidCredentials"
  by (simp add: signin_def find_unique_email_def db_corrupt_def py_or_def verify_password_def
      fake_pwd_context_def InvalidCredentials_def)



end
